theory Spec2Isabelle
  imports Main
begin

section \<open>Data model of \<open>src/ai-agents/main.py\<close>\<close>

text \<open>
  The two pydantic models of the service. \<open>RouteRequest\<close> is the body of
  \<open>POST /api/plan-journey\<close>; its defaults (\<open>"en"\<close>, \<open>"fastest"\<close>, \<open>False\<close>) are filled in
  by the validation layer before the handler runs, so the handler always sees all five
  fields.
\<close>

record RouteRequest =
  origin :: string
  destination :: string
  language :: string
  mode_preference :: string
  accessibility_needs :: bool

record RouteOption =
  mode :: string
  duration :: string
  cost :: string
  steps :: "string list"
  accessibility_score :: int

text \<open>
  The exceptions that occur in the modelled code. The first three are raised by the HTTP
  client (\<open>requests.get\<close>, \<open>response.json()\<close>), the last two by the Python runtime
  (\<open>None.get\<close>, \<open>int("...")\<close>).
\<close>

datatype exn =
    ConnectionError
  | Timeout
  | JSONDecodeError
  | AttributeError
  | ValueError

text \<open>
  Python values as the handlers build them: \<open>None\<close>, booleans, integers, strings, lists,
  dictionaries with string keys (an association list in insertion order, keys distinct) and
  \<open>RouteOption\<close> model objects. A decoded JSON body is a value of the same type; JSON
  numbers with a fraction are left out, as no handler looks inside a number.
\<close>

datatype pyval =
    PNone
  | PBool bool
  | PInt int
  | PStr string
  | PList "pyval list"
  | PDict "(string \<times> pyval) list"
  | PRouteOption RouteOption

section \<open>String helpers of the Python runtime used by the optimizer\<close>

text \<open>
  \<open>s.replace(old, new)\<close>: every non-overlapping occurrence of \<open>old\<close>, scanning from the
  left, is replaced by \<open>new\<close>. With an empty \<open>old\<close> Python inserts \<open>new\<close> before every
  character and at the end.
\<close>

function str_replace :: "string \<Rightarrow> string \<Rightarrow> string \<Rightarrow> string" where
  "str_replace old new [] = (if old = [] then new else [])"
| "str_replace old new (c # cs) =
     (if old = [] then new @ c # str_replace old new cs
      else if take (length old) (c # cs) = old
           then new @ str_replace old new (drop (length old) (c # cs))
           else c # str_replace old new cs)"
  by pat_completeness auto
termination
  by (relation "measure (\<lambda>(old, new, s). length s)") (auto simp: neq_Nil_conv)

text \<open>
  \<open>int(s)\<close> on a string, base 10: surrounding whitespace is stripped, one optional sign,
  then decimal digits in which single underscores may separate digits. Anything else raises
  \<open>ValueError\<close>. (ASCII only: the characters of the cost literals. The interpreter's
  limit on the number of digits, far above the three digits of the literals, is left out.)
\<close>

definition is_space :: "char \<Rightarrow> bool" where
  "is_space c = (let n = (of_char c :: nat) in (9 \<le> n \<and> n \<le> 13) \<or> (28 \<le> n \<and> n \<le> 32))"

definition is_digit :: "char \<Rightarrow> bool" where
  "is_digit c = (let n = (of_char c :: nat) in 48 \<le> n \<and> n \<le> 57)"

definition digit_val :: "char \<Rightarrow> nat" where
  "digit_val c = of_char c - 48"

definition strip :: "string \<Rightarrow> string" where
  "strip s = rev (dropWhile is_space (rev (dropWhile is_space s)))"

fun digits_value :: "nat \<Rightarrow> bool \<Rightarrow> string \<Rightarrow> nat option" where
  "digits_value acc after_digit [] = (if after_digit then Some acc else None)"
| "digits_value acc after_digit (c # cs) =
     (if is_digit c then digits_value (10 * acc + digit_val c) True cs
      else if c = CHR ''_'' \<and> after_digit then digits_value acc False cs
      else None)"

definition py_int :: "string \<Rightarrow> exn + int" where
  "py_int s =
     (case strip s of
        [] \<Rightarrow> Inl ValueError
      | c # cs \<Rightarrow>
          if c = CHR ''-'' then
            (case digits_value 0 False cs of None \<Rightarrow> Inl ValueError | Some n \<Rightarrow> Inr (- int n))
          else if c = CHR ''+'' then
            (case digits_value 0 False cs of None \<Rightarrow> Inl ValueError | Some n \<Rightarrow> Inr (int n))
          else
            (case digits_value 0 False (c # cs) of None \<Rightarrow> Inl ValueError | Some n \<Rightarrow> Inr (int n)))"

text \<open>
  \<open>a < b\<close> on two strings: lexicographic by character code, a proper prefix being smaller.
\<close>

fun str_lt :: "string \<Rightarrow> string \<Rightarrow> bool" where
  "str_lt [] [] = False"
| "str_lt [] (b # bs) = True"
| "str_lt (a # as) [] = False"
| "str_lt (a # as) (b # bs) =
     (if a = b then str_lt as bs else (of_char a :: nat) < of_char b)"

text \<open>
  \<open>sorted(xs, key=f)\<close>: the key of every element is computed first, in list order (the first
  key that raises ends the call); the elements are then put in ascending key order using only
  \<open><\<close> on keys, and the sort is stable.
\<close>

fun decorate :: "('a \<Rightarrow> exn + 'k) \<Rightarrow> 'a list \<Rightarrow> exn + ('k \<times> 'a) list" where
  "decorate key [] = Inr []"
| "decorate key (x # xs) =
     (case key x of
        Inl e \<Rightarrow> Inl e
      | Inr k \<Rightarrow> (case decorate key xs of Inl e \<Rightarrow> Inl e | Inr ps \<Rightarrow> Inr ((k, x) # ps)))"

fun insort_lt :: "('k \<Rightarrow> 'k \<Rightarrow> bool) \<Rightarrow> 'k \<times> 'a \<Rightarrow> ('k \<times> 'a) list \<Rightarrow> ('k \<times> 'a) list" where
  "insort_lt lt p [] = [p]"
| "insort_lt lt p (q # qs) =
     (if lt (fst q) (fst p) then q # insort_lt lt p qs else p # q # qs)"

definition py_sorted :: "('k \<Rightarrow> 'k \<Rightarrow> bool) \<Rightarrow> ('a \<Rightarrow> exn + 'k) \<Rightarrow> 'a list \<Rightarrow> exn + 'a list" where
  "py_sorted lt key xs =
     (case decorate key xs of
        Inl e \<Rightarrow> Inl e
      | Inr ps \<Rightarrow> Inr (map snd (foldr (insort_lt lt) ps [])))"

section \<open>RouteOptimizationAgent\<close>

definition train_bus :: RouteOption where
  "train_bus =
     \<lparr> mode = ''Train + Bus'',
       duration = ''2h 15m'',
       cost = ''Rs. 180'',
       steps = [''Walk to Fort Station (3min)'', ''Train to Galle (1h 50m)'',
                ''Walk to destination (5min)''],
       accessibility_score = 8 \<rparr>"

definition express_bus :: RouteOption where
  "express_bus =
     \<lparr> mode = ''Express Bus'',
       duration = ''2h 45m'',
       cost = ''Rs. 250'',
       steps = [''Walk to bus stop (2min)'', ''Express bus to Galle (2h 35m)'',
                ''Walk to destination (3min)''],
       accessibility_score = 6 \<rparr>"

definition base_routes :: "RouteOption list" where
  "base_routes = [train_bus, express_bus]"

text \<open>The two sort keys: \<open>int(x.cost.replace("Rs. ", ""))\<close> and \<open>x.duration\<close>.\<close>

definition cost_key :: "RouteOption \<Rightarrow> exn + int" where
  "cost_key x = py_int (str_replace ''Rs. '' [] (cost x))"

definition duration_key :: "RouteOption \<Rightarrow> exn + string" where
  "duration_key x = Inr (duration x)"

definition optimize_route :: "RouteRequest \<Rightarrow> exn + RouteOption list" where
  "optimize_route request =
     (if mode_preference request = ''cheapest'' then py_sorted (\<lambda>a b. a < b) cost_key base_routes
      else if mode_preference request = ''fastest'' then py_sorted str_lt duration_key base_routes
      else Inr base_routes)"

section \<open>PersonalizationAgent\<close>

text \<open>
  The module-level agent objects. Each holds the \<open>name\<close> its constructor sets; the
  personalization agent also holds the dictionary \<open>user_preferences\<close>, the only mutable
  state of the process.
\<close>

record app_state =
  data_agent_name :: string
  route_agent_name :: string
  personalization_agent_name :: string
  language_agent_name :: string
  user_preferences :: "string \<rightharpoonup> pyval"

definition init_state :: app_state where
  "init_state =
     \<lparr> data_agent_name = ''Data Aggregation Agent'',
       route_agent_name = ''Route Optimization Agent'',
       personalization_agent_name = ''Personalization Agent'',
       language_agent_name = ''Language & Accessibility Agent'',
       user_preferences = Map.empty \<rparr>"

definition learn_preference :: "app_state \<Rightarrow> string \<Rightarrow> pyval \<Rightarrow> app_state" where
  "learn_preference st user_id preference =
     st\<lparr>user_preferences := (user_preferences st)(user_id \<mapsto> preference)\<rparr>"

definition default_suggestions :: pyval where
  "default_suggestions = PDict [(''mode'', PStr ''fastest''), (''accessibility'', PBool False)]"

definition get_personalized_suggestions :: "app_state \<Rightarrow> string \<Rightarrow> pyval" where
  "get_personalized_suggestions st user_id =
     (case user_preferences st user_id of
        Some preference \<Rightarrow> preference
      | None \<Rightarrow> default_suggestions)"

text \<open>A history of \<open>learn_preference\<close> calls, oldest first.\<close>

fun learn_all :: "app_state \<Rightarrow> (string \<times> pyval) list \<Rightarrow> app_state" where
  "learn_all st [] = st"
| "learn_all st ((user_id, preference) # calls) =
     learn_all (learn_preference st user_id preference) calls"

section \<open>LanguageAgent\<close>

text \<open>
  The phrase table local to \<open>translate_response\<close> (the source's variable
  \<open>translations\<close>). The translated phrases are Sinhala and
  Tamil text, kept here as lists of Unicode code points; the function only ever asks whether
  the language is a key of the table.
\<close>

definition translations_tbl :: "(string \<times> (string \<times> nat list) list) list" where
  "translations_tbl =
     [(''si'',
        [(''Train + Bus'', [3482, 3548, 3512, 3540, 32, 3484, 3538, 3499, 3540, 3512,
                           32, 43, 32, 3510, 3523, 3530]),
         (''Express Bus'', [3520, 3546, 3484, 3520, 3501, 3530, 32, 3510, 3523, 3530]),
         (''Walk to'', [3484, 3512, 3505, 3530, 32, 3482, 3515, 3505, 3530, 3505]),
         (''duration'', [3482, 3535, 3517, 3514])]),
      (''ta'',
        [(''Train + Bus'', [2986, 3009, 2965, 3016, 2997, 2979, 3021, 2975, 3007, 32,
                           43, 32, 2986, 3015, 2992, 3009, 2984, 3021, 2980, 3009]),
         (''Express Bus'', [2997, 3007, 2992, 3016, 2997, 3009, 32, 2986, 3015, 2992,
                           3009, 2984, 3021, 2980, 3009])])]"

definition translate_response :: "pyval \<Rightarrow> string \<Rightarrow> pyval" where
  "translate_response response lang =
     (if lang \<in> set (map fst translations_tbl)
      then PDict [(''translated'', PBool True), (''language'', PStr lang), (''data'', response)]
      else response)"

section \<open>DataAggregationAgent\<close>

text \<open>
  The environment of the one outbound call. \<open>requests\<close> is a library outside the
  repository; what the handler can observe of it is modelled as follows. At a given URL the
  backend either makes the call fail with an exception (refused connection, DNS failure, a
  timeout reported by the transport), or replies after some milliseconds with a status code
  and a body, or never answers. \<open>response.json()\<close> either yields the decoded value or raises.
  \<open>requests.get(url, timeout=t)\<close> gives up with \<open>Timeout\<close> once \<open>t\<close> has passed; without a
  \<open>timeout\<close> argument it waits for as long as the backend takes, and a call that never
  returns is the value \<open>None\<close>.
\<close>

datatype body = Malformed | Json pyval

datatype backend =
    Fails exn
  | Replies nat nat body
  | Silent

record response =
  status_code :: nat
  content :: body

definition requests_get :: "(string \<Rightarrow> backend) \<Rightarrow> string \<Rightarrow> nat option \<Rightarrow> (exn + response) option" where
  "requests_get world url timeout =
     (case world url of
        Fails e \<Rightarrow> Some (Inl e)
      | Replies delay status b \<Rightarrow>
          (case timeout of
             None \<Rightarrow> Some (Inr \<lparr>status_code = status, content = b\<rparr>)
           | Some t \<Rightarrow>
               if delay \<le> t then Some (Inr \<lparr>status_code = status, content = b\<rparr>)
               else Some (Inl Timeout))
      | Silent \<Rightarrow>
          (case timeout of None \<Rightarrow> None | Some t \<Rightarrow> Some (Inl Timeout)))"

definition json :: "response \<Rightarrow> exn + pyval" where
  "json r = (case content r of Malformed \<Rightarrow> Inl JSONDecodeError | Json v \<Rightarrow> Inr v)"

text \<open>
  The call as the source writes it: \<open>requests.get("http://localhost:3000/api/health")\<close>, one
  positional argument and no \<open>timeout\<close>.
\<close>

definition health_url :: string where
  "health_url = ''http://localhost:3000/api/health''"

definition health_timeout :: "nat option" where
  "health_timeout = None"

definition backend_offline :: pyval where
  "backend_offline = PDict [(''status'', PStr ''backend_offline''), (''using_cache'', PBool True)]"

text \<open>
  \<open>get_transport_data\<close>: the bare \<open>except:\<close> covers the call, the status test and the
  decoding. A reply whose status is not 200 raises nothing and matches no \<open>return\<close>, so the
  function falls off its end and yields Python's \<open>None\<close>.
\<close>

definition get_transport_data :: "(string \<Rightarrow> backend) \<Rightarrow> pyval option" where
  "get_transport_data world =
     (case requests_get world health_url health_timeout of
        None \<Rightarrow> None
      | Some (Inl e) \<Rightarrow> Some backend_offline
      | Some (Inr r) \<Rightarrow>
          if status_code r = 200 then
            (case json r of Inl e \<Rightarrow> Some backend_offline | Inr v \<Rightarrow> Some v)
          else Some PNone)"

definition get_sri_lankan_routes :: pyval where
  "get_sri_lankan_routes =
     PDict
       [(''routes'',
          PList
            [PDict [(''id'', PInt 1), (''name'', PStr ''Colombo-Galle''),
                    (''modes'', PList [PStr ''train'', PStr ''bus'']), (''distance'', PInt 119)],
             PDict [(''id'', PInt 2), (''name'', PStr ''Colombo-Kandy''),
                    (''modes'', PList [PStr ''train'', PStr ''bus'']), (''distance'', PInt 115)],
             PDict [(''id'', PInt 3), (''name'', PStr ''Colombo-Negombo''),
                    (''modes'', PList [PStr ''bus'']), (''distance'', PInt 37)]]),
        (''real_time_status'', PStr ''active'')]"

text \<open>An environment in which every URL behaves the same way.\<close>

definition always :: "backend \<Rightarrow> string \<Rightarrow> backend" where
  "always b url = b"

section \<open>API endpoints\<close>

text \<open>
  \<open>obj.get(key)\<close>: on a dictionary the stored value, or \<open>None\<close> for a missing key; every
  other value of \<^typ>\<open>pyval\<close> has no attribute \<open>get\<close>.
\<close>

fun py_get :: "pyval \<Rightarrow> string \<Rightarrow> exn + pyval" where
  "py_get (PDict kvs) key = (case map_of kvs key of Some v \<Rightarrow> Inr v | None \<Rightarrow> Inr PNone)"
| "py_get v key = Inl AttributeError"

definition root :: pyval where
  "root =
     PDict
       [(''service'', PStr ''Smart Transit AI Agents''),
        (''agents'', PInt 7),
        (''status'', PStr ''active''),
        (''capabilities'',
           PList [PStr ''route_optimization'', PStr ''personalization'', PStr ''multilingual'',
                  PStr ''real_time''])]"

text \<open>
  \<open>plan_journey\<close>. \<open>now\<close> is the text of \<open>datetime.now().isoformat()\<close>. The result is \<open>None\<close>
  when the handler never returns, \<open>Some (Inl e)\<close> when it raises \<open>e\<close> (the framework answers
  with a server error) and \<open>Some (Inr body)\<close> when it returns the response body. The handler
  writes nothing to the state.
\<close>

definition journey_payload :: "RouteRequest \<Rightarrow> RouteOption list \<Rightarrow> pyval" where
  "journey_payload request optimized_routes =
     PDict
       [(''origin'', PStr (origin request)),
        (''destination'', PStr (destination request)),
        (''routes'', PList (map PRouteOption optimized_routes)),
        (''preference_applied'', PStr (mode_preference request)),
        (''accessibility_considered'', PBool (accessibility_needs request))]"

definition plan_journey ::
  "app_state \<Rightarrow> (string \<Rightarrow> backend) \<Rightarrow> string \<Rightarrow> RouteRequest \<Rightarrow> (exn + pyval) option" where
  "plan_journey st world now request =
     (case get_transport_data world of
        None \<Rightarrow> None
      | Some transport_data \<Rightarrow>
          Some
            (let route_network = get_sri_lankan_routes in
             case optimize_route request of
               Inl e \<Rightarrow> Inl e
             | Inr optimized_routes \<Rightarrow>
                 (let personalized = get_personalized_suggestions st ''default_user'';
                      final_response =
                        translate_response (journey_payload request optimized_routes)
                          (language request)
                  in case py_get transport_data ''status'' of
                       Inl e \<Rightarrow> Inl e
                     | Inr backend_status \<Rightarrow>
                         Inr (PDict
                                [(''success'', PBool True),
                                 (''processed_by'', PStr ''7 AI agents''),
                                 (''timestamp'', PStr now),
                                 (''backend_status'', backend_status),
                                 (''journey_options'', final_response)]))))"

definition agents_status :: "app_state \<Rightarrow> pyval" where
  "agents_status st =
     PDict
       [(''agents'',
          PList
            [PDict [(''name'', PStr (data_agent_name st)), (''status'', PStr ''active'')],
             PDict [(''name'', PStr (route_agent_name st)), (''status'', PStr ''active'')],
             PDict [(''name'', PStr (personalization_agent_name st)), (''status'', PStr ''active'')],
             PDict [(''name'', PStr (language_agent_name st)), (''status'', PStr ''active'')]]),
        (''total_agents'', PInt 4),
        (''system_health'', PStr ''optimal'')]"

text \<open>The three routes registered on the application.\<close>

datatype endpoint =
    GetRoot
  | PostPlanJourney RouteRequest
  | GetAgentsStatus

fun serve :: "app_state \<Rightarrow> (string \<Rightarrow> backend) \<Rightarrow> string \<Rightarrow> endpoint \<Rightarrow> (exn + pyval) option" where
  "serve st world now GetRoot = Some (Inr root)"
| "serve st world now (PostPlanJourney request) = plan_journey st world now request"
| "serve st world now GetAgentsStatus = Some (Inr (agents_status st))"

section \<open>Properties of the helpers\<close>

lemma cost_key_train_bus: "cost_key train_bus = Inr 180"
  by code_simp

lemma cost_key_express_bus: "cost_key express_bus = Inr 250"
  by code_simp

lemma sorted_by_cost: "py_sorted (\<lambda>a b. a < b) cost_key base_routes = Inr [train_bus, express_bus]"
  by (simp add: py_sorted_def base_routes_def cost_key_train_bus cost_key_express_bus)

lemma durations_ordered: "str_lt (duration train_bus) (duration express_bus)"
  by (simp add: train_bus_def express_bus_def)

lemma sorted_by_duration: "py_sorted str_lt duration_key base_routes = Inr [train_bus, express_bus]"
  by (simp add: py_sorted_def base_routes_def duration_key_def train_bus_def express_bus_def)

lemma str_lt_lexord:
  "str_lt a b \<longleftrightarrow> (a, b) \<in> lexord {(c, d). (of_char c :: nat) < of_char d}"
  by (induction a b rule: str_lt.induct) auto

lemma optimize_route_value: "optimize_route request = Inr [train_bus, express_bus]"
  unfolding optimize_route_def sorted_by_cost sorted_by_duration
  by (simp add: base_routes_def)

text \<open>
  The model of \<open>sorted\<close> is a sort: on keys with a linear order it returns the elements of
  its argument, as many as it was given, in ascending order of their keys.
\<close>

lemma set_insort_lt: "set (insort_lt lt p qs) = insert p (set qs)"
  by (induction qs) auto

lemma length_insort_lt: "length (insort_lt lt p qs) = Suc (length qs)"
  by (induction qs) auto

lemma sorted_insort_lt:
  fixes p :: "'k::linorder \<times> 'a"
  shows "sorted_wrt (\<lambda>a b. fst a \<le> fst b) qs \<Longrightarrow>
         sorted_wrt (\<lambda>a b. fst a \<le> fst b) (insort_lt (\<lambda>a b. a < b) p qs)"
  by (induction qs) (auto simp: set_insort_lt)

lemma sorted_foldr_insort_lt:
  fixes ps :: "('k::linorder \<times> 'a) list"
  shows "sorted_wrt (\<lambda>a b. fst a \<le> fst b) (foldr (insort_lt (\<lambda>a b. a < b)) ps [])"
  by (induction ps) (simp_all add: sorted_insort_lt)

lemma set_foldr_insort_lt: "set (foldr (insort_lt lt) ps []) = set ps"
  by (induction ps) (simp_all add: set_insort_lt)

lemma length_foldr_insort_lt: "length (foldr (insort_lt lt) ps []) = length ps"
  by (induction ps) (simp_all add: length_insort_lt)

lemma decorate_Inr:
  "decorate key xs = Inr ps \<Longrightarrow> map snd ps = xs \<and> (\<forall>p \<in> set ps. key (snd p) = Inr (fst p))"
  by (induction xs arbitrary: ps) (auto split: sum.splits)

lemma py_sorted_sorts:
  fixes key :: "'a \<Rightarrow> exn + 'k::linorder"
  assumes "py_sorted (\<lambda>a b. a < b) key xs = Inr ys"
  shows "set ys = set xs \<and> length ys = length xs
         \<and> sorted_wrt (\<lambda>a b. \<exists>ka kb. key a = Inr ka \<and> key b = Inr kb \<and> ka \<le> kb) ys"
proof -
  from assms obtain ps where d: "decorate key xs = Inr ps"
    and ys: "ys = map snd (foldr (insort_lt (\<lambda>a b. a < b)) ps [])"
    by (auto simp: py_sorted_def split: sum.splits)
  let ?qs = "foldr (insort_lt (\<lambda>a b. a < b)) ps []"
  from d have m: "map snd ps = xs" and k: "\<forall>p \<in> set ps. key (snd p) = Inr (fst p)"
    using decorate_Inr by blast+
  have "set ys = snd ` set ps" by (simp add: ys set_foldr_insort_lt)
  also have "\<dots> = set xs" using m by (metis set_map)
  finally have s: "set ys = set xs" .
  have l: "length ys = length xs"
    using m by (simp add: ys length_foldr_insort_lt flip: length_map [of snd ps])
  have "sorted_wrt (\<lambda>a b. fst a \<le> fst b) ?qs" by (rule sorted_foldr_insort_lt)
  then have "sorted_wrt (\<lambda>a b. \<exists>ka kb. key (snd a) = Inr ka \<and> key (snd b) = Inr kb \<and> ka \<le> kb) ?qs"
    by (rule sorted_wrt_mono_rel [rotated]) (use k in \<open>auto simp: set_foldr_insort_lt\<close>)
  then have "sorted_wrt (\<lambda>a b. \<exists>ka kb. key a = Inr ka \<and> key b = Inr kb \<and> ka \<le> kb) ys"
    by (simp add: ys sorted_wrt_map)
  with s l show ?thesis by simp
qed

section \<open>Route optimization\<close>

text \<open>
  C2. With \<open>mode_preference = "cheapest"\<close> the optimizer returns the two options in strictly
  ascending order of the integer read from the cost string after removing \<open>"Rs. "\<close>: the
  costs are 180 and 250, so Train + Bus comes before Express Bus.
\<close>

theorem cheapest_sorts_by_cost:
  assumes "mode_preference request = ''cheapest''"
  shows "\<exists>rs ks. optimize_route request = Inr rs
           \<and> map cost_key rs = map Inr ks
           \<and> sorted_wrt (\<lambda>a b. a < b) ks
           \<and> ks = [180, 250]
           \<and> map mode rs = [''Train + Bus'', ''Express Bus'']"
proof -
  have "optimize_route request = py_sorted (\<lambda>a b. a < b) cost_key base_routes"
    using assms by (simp add: optimize_route_def)
  then have r: "optimize_route request = Inr [train_bus, express_bus]"
    by (simp add: sorted_by_cost)
  have k: "map cost_key [train_bus, express_bus] = map Inr [180, 250]"
    by (simp add: cost_key_train_bus cost_key_express_bus)
  have m: "map mode [train_bus, express_bus] = [''Train + Bus'', ''Express Bus'']"
    by (simp add: train_bus_def express_bus_def)
  have s: "sorted_wrt (\<lambda>a b. a < b) [180, 250 :: int]"
    by simp
  from r k m s show ?thesis by simp
qed

theorem cheapest_sorts_by_cost_witness:
  "mode_preference \<lparr>origin = ''Colombo'', destination = ''Galle'', language = ''en'',
       mode_preference = ''cheapest'', accessibility_needs = False\<rparr> = ''cheapest''
   \<and> (\<exists>rs ks. optimize_route \<lparr>origin = ''Colombo'', destination = ''Galle'', language = ''en'',
         mode_preference = ''cheapest'', accessibility_needs = False\<rparr> = Inr rs
           \<and> map cost_key rs = map Inr ks
           \<and> sorted_wrt (\<lambda>a b. a < b) ks
           \<and> ks = [180, 250]
           \<and> map mode rs = [''Train + Bus'', ''Express Bus''])"
proof -
  have h: "mode_preference \<lparr>origin = ''Colombo'', destination = ''Galle'', language = ''en'',
       mode_preference = ''cheapest'', accessibility_needs = False\<rparr> = ''cheapest''"
    by simp
  show ?thesis using h cheapest_sorts_by_cost [OF h] by (rule conjI)
qed

text \<open>
  C3. With \<open>mode_preference = "fastest"\<close> the optimizer returns the two options in ascending
  order of their duration strings compared as strings, character by character: \<open>"2h 15m"\<close>
  before \<open>"2h 45m"\<close>, so Train + Bus comes before Express Bus. The comparison does not read
  the durations as times: as strings, \<open>"10h 0m"\<close> is below \<open>"2h 15m"\<close>.
\<close>

theorem fastest_sorts_by_duration_string:
  assumes "mode_preference request = ''fastest''"
  shows "\<exists>rs. optimize_route request = Inr rs
           \<and> sorted_wrt (\<lambda>a b. \<not> str_lt (duration b) (duration a)) rs
           \<and> map duration rs = [''2h 15m'', ''2h 45m'']
           \<and> map mode rs = [''Train + Bus'', ''Express Bus'']
           \<and> str_lt ''2h 15m'' ''2h 45m''
           \<and> str_lt ''10h 0m'' ''2h 15m''"
proof -
  have "optimize_route request = py_sorted str_lt duration_key base_routes"
    using assms by (simp add: optimize_route_def)
  then have r: "optimize_route request = Inr [train_bus, express_bus]"
    by (simp add: sorted_by_duration)
  have s: "sorted_wrt (\<lambda>a b. \<not> str_lt (duration b) (duration a)) [train_bus, express_bus]"
    by (simp add: train_bus_def express_bus_def)
  have d: "map duration [train_bus, express_bus] = [''2h 15m'', ''2h 45m'']"
    by (simp add: train_bus_def express_bus_def)
  have m: "map mode [train_bus, express_bus] = [''Train + Bus'', ''Express Bus'']"
    by (simp add: train_bus_def express_bus_def)
  have l: "str_lt ''2h 15m'' ''2h 45m''" "str_lt ''10h 0m'' ''2h 15m''"
    by simp_all
  from r s d m l show ?thesis by simp
qed

theorem fastest_sorts_by_duration_string_witness:
  "mode_preference \<lparr>origin = ''Colombo'', destination = ''Galle'', language = ''en'',
       mode_preference = ''fastest'', accessibility_needs = False\<rparr> = ''fastest''
   \<and> (\<exists>rs. optimize_route \<lparr>origin = ''Colombo'', destination = ''Galle'', language = ''en'',
         mode_preference = ''fastest'', accessibility_needs = False\<rparr> = Inr rs
           \<and> sorted_wrt (\<lambda>a b. \<not> str_lt (duration b) (duration a)) rs
           \<and> map duration rs = [''2h 15m'', ''2h 45m'']
           \<and> map mode rs = [''Train + Bus'', ''Express Bus'']
           \<and> str_lt ''2h 15m'' ''2h 45m''
           \<and> str_lt ''10h 0m'' ''2h 15m'')"
proof -
  have h: "mode_preference \<lparr>origin = ''Colombo'', destination = ''Galle'', language = ''en'',
       mode_preference = ''fastest'', accessibility_needs = False\<rparr> = ''fastest''"
    by simp
  show ?thesis using h fastest_sorts_by_duration_string [OF h] by (rule conjI)
qed

text \<open>
  C4. With any \<open>mode_preference\<close> other than \<open>"cheapest"\<close> and \<open>"fastest"\<close> the optimizer
  returns the options in the order in which the source declares them: Train + Bus, then
  Express Bus.
\<close>

theorem other_preference_keeps_declaration_order:
  assumes "mode_preference request \<noteq> ''cheapest''" and "mode_preference request \<noteq> ''fastest''"
  shows "optimize_route request = Inr base_routes
         \<and> map mode base_routes = [''Train + Bus'', ''Express Bus'']"
  using assms by (simp add: optimize_route_def base_routes_def train_bus_def express_bus_def)

theorem other_preference_keeps_declaration_order_witness:
  "mode_preference \<lparr>origin = ''Colombo'', destination = ''Galle'', language = ''en'',
       mode_preference = ''scenic'', accessibility_needs = False\<rparr> \<noteq> ''cheapest''
   \<and> mode_preference \<lparr>origin = ''Colombo'', destination = ''Galle'', language = ''en'',
       mode_preference = ''scenic'', accessibility_needs = False\<rparr> \<noteq> ''fastest''
   \<and> optimize_route \<lparr>origin = ''Colombo'', destination = ''Galle'', language = ''en'',
       mode_preference = ''scenic'', accessibility_needs = False\<rparr> = Inr base_routes
   \<and> map mode base_routes = [''Train + Bus'', ''Express Bus'']"
proof -
  have h1: "mode_preference \<lparr>origin = ''Colombo'', destination = ''Galle'', language = ''en'',
       mode_preference = ''scenic'', accessibility_needs = False\<rparr> \<noteq> ''cheapest''"
    by simp
  have h2: "mode_preference \<lparr>origin = ''Colombo'', destination = ''Galle'', language = ''en'',
       mode_preference = ''scenic'', accessibility_needs = False\<rparr> \<noteq> ''fastest''"
    by simp
  show ?thesis using h1 conjI [OF h2 other_preference_keeps_declaration_order [OF h1 h2]] by (rule conjI)
qed

text \<open>
  C9. Two requests that agree on every field except \<open>accessibility_needs\<close> get the same list
  of route options from the optimizer.
\<close>

theorem accessibility_needs_ignored:
  assumes "origin r1 = origin r2" and "destination r1 = destination r2"
    and "language r1 = language r2" and "mode_preference r1 = mode_preference r2"
  shows "optimize_route r1 = optimize_route r2"
  using assms(4) by (simp add: optimize_route_def)

theorem accessibility_needs_ignored_witness:
  "optimize_route \<lparr>origin = ''Colombo'', destination = ''Galle'', language = ''en'',
       mode_preference = ''cheapest'', accessibility_needs = True\<rparr>
   = optimize_route \<lparr>origin = ''Colombo'', destination = ''Galle'', language = ''en'',
       mode_preference = ''cheapest'', accessibility_needs = False\<rparr>"
  by (rule accessibility_needs_ignored) simp_all

section \<open>Translation\<close>

text \<open>
  C5. For the languages \<open>"si"\<close> and \<open>"ta"\<close>, \<open>translate_response\<close> returns the dictionary
  \<open>{translated: True, language, data: payload}\<close> whose \<open>data\<close> is the payload it was given,
  unchanged; for every other language (the default \<open>"en"\<close> among them) it returns the payload
  itself. No phrase of the table is substituted into the payload.
\<close>

theorem translate_response_wraps_or_passes:
  "translate_response payload lang =
     (if lang = ''si'' \<or> lang = ''ta''
      then PDict [(''translated'', PBool True), (''language'', PStr lang), (''data'', payload)]
      else payload)
   \<and> translate_response payload ''en'' = payload"
  by (simp add: translate_response_def translations_tbl_def)

theorem translate_response_wraps_or_passes_witness:
  "translate_response (PStr ''Train + Bus'') ''si'' =
     PDict [(''translated'', PBool True), (''language'', PStr ''si''),
            (''data'', PStr ''Train + Bus'')]
   \<and> translate_response (PStr ''Train + Bus'') ''fr'' = PStr ''Train + Bus''"
  using translate_response_wraps_or_passes [of "PStr ''Train + Bus''" "''si''"]
    translate_response_wraps_or_passes [of "PStr ''Train + Bus''" "''fr''"]
  by simp

section \<open>Personalization\<close>

lemma learn_all_append:
  "learn_all st (calls @ [(user_id, preference)]) =
     learn_preference (learn_all st calls) user_id preference"
  by (induction st calls rule: learn_all.induct) simp_all

lemma learn_all_other_keys:
  "user_id \<notin> set (map fst calls) \<Longrightarrow>
     user_preferences (learn_all st calls) user_id = user_preferences st user_id"
  by (induction st calls rule: learn_all.induct) (simp_all add: learn_preference_def)

text \<open>
  C6. After \<open>learn_preference(user_id, record)\<close>, whatever was stored before,
  \<open>get_personalized_suggestions(user_id)\<close> returns that record: the last write of a history
  of calls wins. For a user that no call has written since start-up it returns the default
  \<open>{mode: "fastest", accessibility: False}\<close>.
\<close>

theorem learn_then_get:
  "get_personalized_suggestions (learn_preference st user_id preference) user_id = preference
   \<and> get_personalized_suggestions
         (learn_all init_state (calls @ [(user_id, preference)])) user_id = preference
   \<and> (user_id \<notin> set (map fst calls) \<longrightarrow>
        get_personalized_suggestions (learn_all init_state calls) user_id =
          PDict [(''mode'', PStr ''fastest''), (''accessibility'', PBool False)])"
proof (intro conjI impI)
  show "get_personalized_suggestions (learn_preference st user_id preference) user_id = preference"
    by (simp add: get_personalized_suggestions_def learn_preference_def)
  show "get_personalized_suggestions
          (learn_all init_state (calls @ [(user_id, preference)])) user_id = preference"
    by (simp add: learn_all_append get_personalized_suggestions_def learn_preference_def)
next
  assume "user_id \<notin> set (map fst calls)"
  then have "user_preferences (learn_all init_state calls) user_id = None"
    by (simp add: learn_all_other_keys init_state_def)
  then show "get_personalized_suggestions (learn_all init_state calls) user_id =
          PDict [(''mode'', PStr ''fastest''), (''accessibility'', PBool False)]"
    by (simp add: get_personalized_suggestions_def default_suggestions_def)
qed

theorem learn_then_get_witness:
  "get_personalized_suggestions
     (learn_preference init_state ''alice'' (PDict [(''mode'', PStr ''cheapest'')])) ''alice'' =
     PDict [(''mode'', PStr ''cheapest'')]
   \<and> get_personalized_suggestions
        (learn_all init_state
           ([(''alice'', PDict [(''mode'', PStr ''fastest'')])] @
            [(''alice'', PDict [(''mode'', PStr ''cheapest'')])])) ''alice'' =
        PDict [(''mode'', PStr ''cheapest'')]
   \<and> ''bob'' \<notin> set (map fst [(''alice'', PDict [(''mode'', PStr ''fastest'')])])
   \<and> get_personalized_suggestions
        (learn_all init_state [(''alice'', PDict [(''mode'', PStr ''fastest'')])]) ''bob'' =
        PDict [(''mode'', PStr ''fastest''), (''accessibility'', PBool False)]"
proof -
  have h: "''bob'' \<notin> set (map fst [(''alice'', PDict [(''mode'', PStr ''fastest'')])])"
    by simp
  have a: "get_personalized_suggestions
     (learn_preference init_state ''alice'' (PDict [(''mode'', PStr ''cheapest'')])) ''alice'' =
     PDict [(''mode'', PStr ''cheapest'')]"
    using learn_then_get [of init_state "''alice''" "PDict [(''mode'', PStr ''cheapest'')]" "[]"]
    by (rule conjunct1)
  have b: "get_personalized_suggestions
        (learn_all init_state
           ([(''alice'', PDict [(''mode'', PStr ''fastest'')])] @
            [(''alice'', PDict [(''mode'', PStr ''cheapest'')])])) ''alice'' =
        PDict [(''mode'', PStr ''cheapest'')]"
    using learn_then_get [of init_state "''alice''" "PDict [(''mode'', PStr ''cheapest'')]"
        "[(''alice'', PDict [(''mode'', PStr ''fastest'')])]"]
    by (rule conjunct1 [OF conjunct2])
  have c: "get_personalized_suggestions
        (learn_all init_state [(''alice'', PDict [(''mode'', PStr ''fastest'')])]) ''bob'' =
        PDict [(''mode'', PStr ''fastest''), (''accessibility'', PBool False)]"
    using learn_then_get [of init_state "''bob''" PNone
        "[(''alice'', PDict [(''mode'', PStr ''fastest'')])]"] h
    by (rule mp [OF conjunct2 [OF conjunct2]])
  from a b h c show ?thesis by (intro conjI)
qed

section \<open>The health check and the journey endpoint\<close>

lemma get_transport_data_blocks_iff:
  "get_transport_data world = None \<longleftrightarrow> world health_url = Silent"
  by (simp add: get_transport_data_def requests_get_def health_timeout_def
      split: backend.splits sum.splits)

lemma get_transport_data_raised:
  "world health_url = Fails e \<Longrightarrow> get_transport_data world = Some backend_offline"
  by (simp add: get_transport_data_def requests_get_def)

lemma get_transport_data_malformed:
  "world health_url = Replies delay 200 Malformed \<Longrightarrow>
     get_transport_data world = Some backend_offline"
  by (simp add: get_transport_data_def requests_get_def health_timeout_def json_def)

lemma get_transport_data_not_200:
  "world health_url = Replies delay status b \<Longrightarrow> status \<noteq> 200 \<Longrightarrow>
     get_transport_data world = Some PNone"
  by (simp add: get_transport_data_def requests_get_def health_timeout_def)

lemma plan_journey_offline:
  "get_transport_data world = Some backend_offline \<Longrightarrow>
     plan_journey st world now request =
       Some (Inr (PDict
         [(''success'', PBool True),
          (''processed_by'', PStr ''7 AI agents''),
          (''timestamp'', PStr now),
          (''backend_status'', PStr ''backend_offline''),
          (''journey_options'',
             translate_response (journey_payload request [train_bus, express_bus])
               (language request))]))"
  by (simp add: plan_journey_def optimize_route_value backend_offline_def)

lemma plan_journey_none_status:
  "get_transport_data world = Some PNone \<Longrightarrow>
     plan_journey st world now request = Some (Inl AttributeError)"
  by (simp add: plan_journey_def optimize_route_value)

text \<open>
  A reply with status 200 whose body decodes to something other than a dictionary is
  returned as it is, and the handler then fails on it in the same way.
\<close>

lemma plan_journey_non_dict_body:
  "plan_journey st (always (Replies delay 200 (Json (PList [])))) now request =
     Some (Inl AttributeError)"
  by (simp add: plan_journey_def optimize_route_value get_transport_data_def requests_get_def
      health_timeout_def json_def always_def)

text \<open>
  The part of the fallback policy that the code does carry out: when the call raises, or a
  reply with status 200 has a body that does not decode, the handler returns its normal body
  with \<open>backend_status = "backend_offline"\<close>.
\<close>

lemma plan_journey_fallback:
  assumes "world health_url = Fails e \<or> (\<exists>delay. world health_url = Replies delay 200 Malformed)"
  shows "\<exists>body. plan_journey st world now request = Some (Inr body)
           \<and> py_get body ''success'' = Inr (PBool True)
           \<and> py_get body ''backend_status'' = Inr (PStr ''backend_offline'')"
proof -
  from assms have "get_transport_data world = Some backend_offline"
    by (auto simp: get_transport_data_raised get_transport_data_malformed)
  then show ?thesis
    by (simp add: plan_journey_offline)
qed

text \<open>
  C1. The claim asks that every failure of the health check, a reply with a status other
  than 200 included, ends in the normal response with the offline marker. The handler does
  not do so for a non-200 reply: with the backend answering 503, \<open>get_transport_data\<close>
  returns \<open>None\<close> and \<open>plan_journey\<close> raises \<open>AttributeError\<close> at
  \<open>transport_data.get("status")\<close>.
\<close>

theorem plan_journey_non_200_raises:
  "get_transport_data (always (Replies 0 503 (Json (PDict [])))) = Some PNone
   \<and> plan_journey init_state (always (Replies 0 503 (Json (PDict [])))) ''2026-01-01T00:00:00''
        \<lparr>origin = ''Colombo'', destination = ''Galle'', language = ''en'',
         mode_preference = ''fastest'', accessibility_needs = False\<rparr>
      = Some (Inl AttributeError)"
proof -
  have g: "get_transport_data (always (Replies 0 503 (Json (PDict [])))) = Some PNone"
    by (rule get_transport_data_not_200 [of _ 0 503 "Json (PDict [])"]) (simp_all add: always_def)
  from g plan_journey_none_status [OF g] show ?thesis by (rule conjI)
qed

text \<open>
  C8, as the claim states it, fails: the call carries no timeout, and against a backend that
  never answers the handler never returns.
\<close>

theorem health_check_unbounded_counterexample:
  "health_timeout = None
   \<and> plan_journey init_state (always Silent) ''2026-01-01T00:00:00''
        \<lparr>origin = ''Colombo'', destination = ''Galle'', language = ''en'',
         mode_preference = ''fastest'', accessibility_needs = False\<rparr>
      = None"
proof -
  have "get_transport_data (always Silent) = None"
    by (simp add: get_transport_data_blocks_iff always_def)
  then show ?thesis
    by (simp add: plan_journey_def health_timeout_def)
qed

text \<open>
  C8, amended. The health check is issued without a timeout. The handler returns (a body or
  an exception) exactly when the backend does not stay silent, and blocks when it does. A
  timeout that the call itself reports, like any other exception of the call, takes the
  offline fallback: the handler returns its normal body with
  \<open>backend_status = "backend_offline"\<close>.
\<close>

theorem health_check_without_timeout:
  "health_timeout = None
   \<and> (plan_journey st world now request = None \<longleftrightarrow> world health_url = Silent)
   \<and> (world health_url = Fails Timeout \<longrightarrow>
        get_transport_data world = Some backend_offline
        \<and> (\<exists>body. plan_journey st world now request = Some (Inr body)
              \<and> py_get body ''backend_status'' = Inr (PStr ''backend_offline'')))"
proof (intro conjI impI)
  show "health_timeout = None"
    by (simp add: health_timeout_def)
  have "plan_journey st world now request = None \<longleftrightarrow> get_transport_data world = None"
    by (simp add: plan_journey_def split: option.splits)
  then show "plan_journey st world now request = None \<longleftrightarrow> world health_url = Silent"
    by (simp add: get_transport_data_blocks_iff)
next
  assume t: "world health_url = Fails Timeout"
  then show "get_transport_data world = Some backend_offline"
    by (rule get_transport_data_raised)
  from t have "get_transport_data world = Some backend_offline"
    by (rule get_transport_data_raised)
  then show "\<exists>body. plan_journey st world now request = Some (Inr body)
              \<and> py_get body ''backend_status'' = Inr (PStr ''backend_offline'')"
    by (simp add: plan_journey_offline)
qed

theorem health_check_without_timeout_witness:
  "always (Fails Timeout) health_url = Fails Timeout
   \<and> get_transport_data (always (Fails Timeout)) = Some backend_offline
   \<and> (\<exists>body. plan_journey init_state (always (Fails Timeout)) ''2026-01-01T00:00:00''
          \<lparr>origin = ''Colombo'', destination = ''Galle'', language = ''en'',
           mode_preference = ''fastest'', accessibility_needs = False\<rparr> = Some (Inr body)
        \<and> py_get body ''backend_status'' = Inr (PStr ''backend_offline''))"
proof -
  have h: "always (Fails Timeout) health_url = Fails Timeout"
    by (simp add: always_def)
  have "always (Fails Timeout) health_url = Fails Timeout \<longrightarrow>
        get_transport_data (always (Fails Timeout)) = Some backend_offline
        \<and> (\<exists>body. plan_journey init_state (always (Fails Timeout)) ''2026-01-01T00:00:00''
          \<lparr>origin = ''Colombo'', destination = ''Galle'', language = ''en'',
           mode_preference = ''fastest'', accessibility_needs = False\<rparr> = Some (Inr body)
              \<and> py_get body ''backend_status'' = Inr (PStr ''backend_offline''))"
    by (rule conjunct2 [OF conjunct2 [OF health_check_without_timeout]])
  then show ?thesis using h by (intro conjI) (rule h, (drule (1) mp, erule conjunct1, drule (1) mp, erule conjunct2))
qed

text \<open>
  C10. The body that \<open>plan_journey\<close> returns, or the exception it raises, or its not
  returning, is the same in any two states of the process: the stored preferences are read
  but take no part in the response.
\<close>

theorem plan_journey_ignores_preferences:
  "plan_journey st1 world now request = plan_journey st2 world now request
   \<and> plan_journey (learn_preference st ''default_user'' preference) world now request
       = plan_journey st world now request"
  by (simp add: plan_journey_def Let_def split: option.splits sum.splits)

theorem plan_journey_ignores_preferences_witness:
  "plan_journey init_state (always (Fails ConnectionError)) ''2026-01-01T00:00:00''
        \<lparr>origin = ''Colombo'', destination = ''Galle'', language = ''si'',
         mode_preference = ''cheapest'', accessibility_needs = True\<rparr>
   = plan_journey
        (learn_preference init_state ''default_user'' (PDict [(''mode'', PStr ''cheapest'')]))
        (always (Fails ConnectionError)) ''2026-01-01T00:00:00''
        \<lparr>origin = ''Colombo'', destination = ''Galle'', language = ''si'',
         mode_preference = ''cheapest'', accessibility_needs = True\<rparr>"
  by (rule conjunct1 [OF plan_journey_ignores_preferences])

section \<open>Agent status endpoint\<close>

text \<open>
  C7. In every state of the process and whatever the backend does, \<open>GET /api/agents/status\<close>
  returns a body that lists exactly four agents, each with status \<open>"active"\<close>, and
  \<open>total_agents\<close> 4.
\<close>

theorem agents_status_fixed:
  "serve st world now GetAgentsStatus = Some (Inr (agents_status st))
   \<and> py_get (agents_status st) ''total_agents'' = Inr (PInt 4)
   \<and> (\<exists>entries. py_get (agents_status st) ''agents'' = Inr (PList entries)
        \<and> length entries = 4
        \<and> map (\<lambda>entry. py_get entry ''status'') entries =
            [Inr (PStr ''active''), Inr (PStr ''active''), Inr (PStr ''active''),
             Inr (PStr ''active'')])"
  by (simp add: agents_status_def)

theorem agents_status_fixed_witness:
  "serve init_state (always Silent) ''2026-01-01T00:00:00'' GetAgentsStatus
     = Some (Inr (agents_status init_state))
   \<and> py_get (agents_status init_state) ''total_agents'' = Inr (PInt 4)"
  using agents_status_fixed [of init_state "always Silent" "''2026-01-01T00:00:00''"]
  by (intro conjI) (erule conjunct1, drule conjunct2, erule conjunct1)

end
